theory Spec2Isabelle
  imports Main "HOL-Library.Sublist"
begin

section \<open>Python data and Pulumi values\<close>

text \<open>
  The repository is a set of Pulumi programs in Python. Plain Python data (what
  \<^verbatim>\<open>config.get_object\<close> returns after \<^verbatim>\<open>json.loads\<close>, and the literals of the
  programs) is a \<open>jval\<close>; a dictionary is an association list in insertion order with
  distinct keys. Floats do not occur in the programs and are left out.
\<close>

datatype jval =
    JNone
  | JBool bool
  | JInt int
  | JStr string
  | JList "jval list"
  | JDict "(string \<times> jval) list"

text \<open>
  A property handed to a resource is a \<open>pval\<close>: plain data, or a value that is only
  known once the engine has run (a Pulumi \<^verbatim>\<open>Output\<close>), kept symbolic:
  \<^item> \<open>POut r a\<close>: attribute \<open>a\<close> of the resource declared under the logical name \<open>r\<close>;
  \<^item> \<open>PStackOut s k\<close>: \<^verbatim>\<open>StackReference(s).require_output(k)\<close>;
  \<^item> \<open>PInvoke f args a\<close>: attribute \<open>a\<close> of the result of the provider function \<open>f\<close>;
  \<^item> \<open>PJson v\<close>, \<open>PYaml v\<close>: \<^verbatim>\<open>json.dumps(v)\<close>, \<^verbatim>\<open>yaml.dump(v)\<close>;
  \<^item> \<open>PFormat vs\<close>: an f-string or a join, the concatenation of \<^verbatim>\<open>str\<close> of each piece.
\<close>

datatype pval =
    PNone
  | PBool bool
  | PInt int
  | PStr string
  | PList "pval list"
  | PDict "(string \<times> pval) list"
  | POut string string
  | PStackOut string string
  | PInvoke string "(string \<times> pval) list" string
  | PJson pval
  | PYaml pval
  | PFormat "pval list"

fun pv :: "jval \<Rightarrow> pval" where
  "pv JNone = PNone"
| "pv (JBool b) = PBool b"
| "pv (JInt i) = PInt i"
| "pv (JStr s) = PStr s"
| "pv (JList xs) = PList (map pv xs)"
| "pv (JDict kvs) = PDict (map (\<lambda>(k, v). (k, pv v)) kvs)"

datatype pyerror =
    TypeError string
  | KeyError string
  | AttributeError string
  | IndexError string
  | ValueError string
  | ConfigMissingError string
  | ConfigTypeError string

subsection \<open>The Python operations the programs use\<close>

text \<open>\<^verbatim>\<open>bool(v)\<close>: the truth value Python tests in an \<^verbatim>\<open>if\<close>.\<close>

fun py_truthy :: "jval \<Rightarrow> bool" where
  "py_truthy JNone = False"
| "py_truthy (JBool b) = b"
| "py_truthy (JInt i) = (i \<noteq> 0)"
| "py_truthy (JStr s) = (s \<noteq> [])"
| "py_truthy (JList xs) = (xs \<noteq> [])"
| "py_truthy (JDict kvs) = (kvs \<noteq> [])"

text \<open>\<^verbatim>\<open>d[k]\<close> with a string key: only a dictionary holding the key answers.\<close>

fun py_getitem :: "jval \<Rightarrow> string \<Rightarrow> pyerror + jval" where
  "py_getitem (JDict kvs) k =
     (case map_of kvs k of None \<Rightarrow> Inl (KeyError k) | Some v \<Rightarrow> Inr v)"
| "py_getitem JNone k = Inl (TypeError ''NoneType object is not subscriptable'')"
| "py_getitem (JBool b) k = Inl (TypeError ''bool object is not subscriptable'')"
| "py_getitem (JInt i) k = Inl (TypeError ''int object is not subscriptable'')"
| "py_getitem (JStr s) k = Inl (TypeError ''string indices must be integers'')"
| "py_getitem (JList xs) k = Inl (TypeError ''list indices must be integers or slices'')"

text \<open>\<^verbatim>\<open>d.get(k, default)\<close>: only a dictionary has the method.\<close>

fun py_get :: "jval \<Rightarrow> string \<Rightarrow> jval \<Rightarrow> pyerror + jval" where
  "py_get (JDict kvs) k dflt =
     (case map_of kvs k of None \<Rightarrow> Inr dflt | Some v \<Rightarrow> Inr v)"
| "py_get JNone k dflt = Inl (AttributeError ''get'')"
| "py_get (JBool b) k dflt = Inl (AttributeError ''get'')"
| "py_get (JInt i) k dflt = Inl (AttributeError ''get'')"
| "py_get (JStr s) k dflt = Inl (AttributeError ''get'')"
| "py_get (JList xs) k dflt = Inl (AttributeError ''get'')"

text \<open>
  \<^verbatim>\<open>s.replace(old, new)\<close>: every non-overlapping occurrence of \<open>old\<close>, found from the
  left, is replaced. With an empty \<open>old\<close>, \<open>new\<close> is put before every character and at
  the end.
\<close>

function replace_from :: "string \<Rightarrow> string \<Rightarrow> string \<Rightarrow> string" where
  "replace_from old new [] = []"
| "replace_from old new (c # cs) =
     (if old \<noteq> [] \<and> prefix old (c # cs)
      then new @ replace_from old new (drop (length old) (c # cs))
      else c # replace_from old new cs)"
  by pat_completeness auto
termination
  by (relation "measure (\<lambda>(old, new, s). length s)") auto

definition py_replace :: "string \<Rightarrow> string \<Rightarrow> string \<Rightarrow> string" where
  "py_replace s old new =
     (if old = [] then new @ concat (map (\<lambda>c. c # new) s) else replace_from old new s)"

text \<open>\<^verbatim>\<open>old in s\<close> for strings.\<close>

fun py_contains :: "string \<Rightarrow> string \<Rightarrow> bool" where
  "py_contains old [] = (old = [])"
| "py_contains old (c # cs) = (prefix old (c # cs) \<or> py_contains old cs)"

text \<open>\<^verbatim>\<open>str(n)\<close> of an integer, as an f-string formats it.\<close>

fun str_nat :: "nat \<Rightarrow> string" where
  "str_nat n =
     (if n < 10 then [char_of (48 + n)]
      else str_nat (n div 10) @ [char_of (48 + n mod 10)])"

definition str_int :: "int \<Rightarrow> string" where
  "str_int i = (if i < 0 then CHR ''-'' # str_nat (nat (- i)) else str_nat (nat i))"

subsection \<open>Resources and the order of their declaration\<close>

text \<open>
  Constructing a resource object registers it with the engine: a program is the list of
  the resources it declares, in order. A step of a program either raises or declares
  resources; the run stops at the first step that raises, with what was declared before.
\<close>

record resource =
  rtype :: string
  rname :: string
  props :: "(string \<times> pval) list"
  ropts :: "(string \<times> pval) list"

definition child :: "string \<Rightarrow> string \<Rightarrow> string \<Rightarrow> (string \<times> pval) list \<Rightarrow> resource" where
  "child owner rt rn ps =
     \<lparr>rtype = rt, rname = rn, props = ps, ropts = [(''parent'', PStr owner)]\<rparr>"

fun run_steps :: "(pyerror + resource list) list \<Rightarrow> pyerror option \<times> resource list" where
  "run_steps [] = (None, [])"
| "run_steps (Inl e # ss) = (Some e, [])"
| "run_steps (Inr rs # ss) = (case run_steps ss of (r, rs') \<Rightarrow> (r, rs @ rs'))"

section \<open>The application component (modules/app/app.py)\<close>

text \<open>
  \<^verbatim>\<open>KubernetesServiceArgs\<close>: the attributes of the argument object. An argument that is
  an \<^verbatim>\<open>Output\<close> on which the component calls \<^verbatim>\<open>apply\<close> (\<open>kube_issuer\<close>, \<open>namespace\<close>) is
  held as the string it resolves to, and \<^verbatim>\<open>apply(f)\<close> is \<open>f\<close> at that string.
\<close>

record KubernetesServiceArgs =
  base_tags :: pval
  app_name :: string
  container_ports :: "int list"
  environment_variables :: "(string \<times> pval) list"
  image :: pval
  kube_issuer :: string
  namespace :: string
  openid_connector :: pval
  public_load_balancer :: pval
  secrets_data :: pval
  service_permissions :: "pval list"
  replicas :: pval
  hostname_list :: "jval list"
  ingress_port :: int

text \<open>Lines 63 to 75: the policy, only for a non-empty permission list.\<close>

definition policy_step :: "string \<Rightarrow> KubernetesServiceArgs \<Rightarrow> resource list" where
  "policy_step name args =
     (if length (service_permissions args) > 0
      then [child name ''aws.iam.Policy'' (name @ ''-policy'')
              [(''policy'', PInvoke ''aws.iam.get_policy_document''
                   [(''statements'', PList (service_permissions args))] ''json''),
               (''tags'', base_tags args)]]
      else [])"

text \<open>Lines 89 to 95: the condition of the trust statement.\<close>

definition trust_condition :: "string \<Rightarrow> KubernetesServiceArgs \<Rightarrow> pval" where
  "trust_condition name args =
     PDict [(''test'', PStr ''StringEquals''),
            (''variable'', PStr (py_replace (kube_issuer args) ''https://'' [] @ '':sub'')),
            (''values'',
               PList [PStr (''system:serviceaccount:'' @ namespace args @ '':'' @ name)])]"

text \<open>Lines 77 to 99.\<close>

definition service_role_assume_policy :: "string \<Rightarrow> KubernetesServiceArgs \<Rightarrow> pval" where
  "service_role_assume_policy name args =
     PInvoke ''aws.iam.get_policy_document''
       [(''statements'',
           PList [PDict
             [(''effect'', PStr ''Allow''),
              (''principals'',
                 PList [PDict [(''identifiers'', PList [openid_connector args]),
                               (''type'', PStr ''Federated'')]]),
              (''actions'', PList [PStr ''sts:AssumeRoleWithWebIdentity'']),
              (''conditions'', PList [trust_condition name args])]])]
       ''json''"

definition service_role :: "string \<Rightarrow> KubernetesServiceArgs \<Rightarrow> resource" where
  "service_role name args =
     child name ''aws.iam.Role'' (name @ ''-role'')
       [(''assume_role_policy'', service_role_assume_policy name args),
        (''name'', PStr (name @ ''-role'')),
        (''tags'', base_tags args)]"

definition sa :: "string \<Rightarrow> KubernetesServiceArgs \<Rightarrow> resource" where
  "sa name args =
     child name ''kubernetes.core.v1.ServiceAccount'' (name @ ''-sa'')
       [(''metadata'',
           PDict [(''annotations'',
                     PDict [(''eks.amazonaws.com/role-arn'', POut (name @ ''-role'') ''arn'')]),
                  (''name'', PStr name),
                  (''namespace'', PStr (namespace args))])]"

text \<open>Lines 129 to 137: the attachment, under the same test as the policy.\<close>

definition roleattach_step :: "string \<Rightarrow> KubernetesServiceArgs \<Rightarrow> resource list" where
  "roleattach_step name args =
     (if length (service_permissions args) > 0
      then [child name ''aws.iam.RolePolicyAttachment'' (name @ ''-roleattach'')
              [(''role'', POut (name @ ''-role'') ''name''),
               (''policy_arn'', POut (name @ ''-policy'') ''arn'')]]
      else [])"

definition secrets :: "string \<Rightarrow> KubernetesServiceArgs \<Rightarrow> resource" where
  "secrets name args =
     child name ''kubernetes.core.v1.Secret'' (name @ ''-secrets'')
       [(''metadata'', PDict [(''name'', PStr name), (''namespace'', PStr (namespace args))]),
        (''string_data'', secrets_data args)]"

definition name_label :: "string \<Rightarrow> pval" where
  "name_label name = PDict [(''app.kubernetes.io/name'', PStr name)]"

definition deployment :: "string \<Rightarrow> KubernetesServiceArgs \<Rightarrow> resource" where
  "deployment name args =
     child name ''kubernetes.apps.v1.Deployment'' (name @ ''-deployment'')
       [(''metadata'',
           PDict [(''labels'', name_label name),
                  (''name'', PStr name),
                  (''namespace'', PStr (namespace args))]),
        (''spec'',
           PDict
             [(''replicas'', replicas args),
              (''selector'', PDict [(''match_labels'', name_label name)]),
              (''template'',
                 PDict
                   [(''metadata'', PDict [(''labels'', name_label name)]),
                    (''spec'',
                       PDict
                         [(''containers'',
                             PList [PDict
                               [(''name'', PStr (app_name args)),
                                (''env'',
                                   PList (map (\<lambda>(k, v). PDict [(''name'', PStr k), (''value'', v)])
                                            (environment_variables args))),
                                (''env_from'',
                                   PList [PDict [(''secret_ref'',
                                     PDict [(''name'',
                                       POut (name @ ''-secrets'') ''metadata.name'')])]]),
                                (''image'', image args),
                                (''image_pull_policy'', PStr ''Always''),
                                (''ports'',
                                   PList (map (\<lambda>p. PDict [(''name'', PStr (str_int p @ ''-tcp'')),
                                                             (''container_port'', PInt p)])
                                            (container_ports args)))]]),
                          (''service_account_name'',
                             POut (name @ ''-sa'') ''metadata.name'')])])])]"

text \<open>Lines 213 to 256: the autoscaler. Its bounds and targets are literals.\<close>

definition metric_spec :: "string \<Rightarrow> pval" where
  "metric_spec res =
     PDict [(''type'', PStr ''Resource''),
            (''resource'',
               PDict [(''name'', PStr res),
                      (''target'', PDict [(''type'', PStr ''Utilization''),
                                          (''average_value'', PStr ''60'')])])]"

definition autoscaling_spec :: "string \<Rightarrow> KubernetesServiceArgs \<Rightarrow> (string \<times> pval) list" where
  "autoscaling_spec name args =
     [(''scale_target_ref'',
         PDict [(''api_version'', PStr ''apps/v1''),
                (''kind'', PStr ''Deployment''),
                (''name'', PStr name)]),
      (''min_replicas'', PInt 1),
      (''max_replicas'', PInt 6),
      (''metrics'', PList [metric_spec ''cpu'', metric_spec ''memory''])]"

definition autoscaling :: "string \<Rightarrow> KubernetesServiceArgs \<Rightarrow> resource" where
  "autoscaling name args =
     child name ''kubernetes.autoscaling.v2.HorizontalPodAutoscaler'' (name @ ''-app-hpa'')
       [(''metadata'',
           PDict [(''labels'', name_label name),
                  (''name'', PStr name),
                  (''namespace'', PStr (namespace args))]),
        (''spec'', PDict (autoscaling_spec name args))]"

definition service :: "string \<Rightarrow> KubernetesServiceArgs \<Rightarrow> resource" where
  "service name args =
     child name ''kubernetes.core.v1.Service'' (name @ ''-service'')
       [(''metadata'',
           PDict [(''labels'', name_label name),
                  (''name'', PStr name),
                  (''namespace'', PStr (namespace args))]),
        (''spec'',
           PDict [(''ports'',
                     PList (map (\<lambda>p. PDict [(''port'', PInt p),
                                               (''name'', PStr (str_int p @ ''-tcp''))])
                              (container_ports args))),
                  (''selector'', name_label name)])]"

text \<open>
  Lines 289 to 291: \<^verbatim>\<open>h['name']\<close> is read for every entry before anything of the
  ingress is declared; the first entry that has no name raises.
\<close>

fun host_names :: "jval list \<Rightarrow> pyerror + jval list" where
  "host_names [] = Inr []"
| "host_names (h # hs) =
     (case py_getitem h ''name'' of
        Inl e \<Rightarrow> Inl e
      | Inr n \<Rightarrow> (case host_names hs of Inl e \<Rightarrow> Inl e | Inr ns \<Rightarrow> Inr (n # ns)))"

fun join_with :: "pval \<Rightarrow> pval list \<Rightarrow> pval list" where
  "join_with sep [] = []"
| "join_with sep [x] = [x]"
| "join_with sep (x # y # ys) = x # sep # join_with sep (y # ys)"

definition hosts :: "jval list \<Rightarrow> pval" where
  "hosts ns =
     PFormat (join_with (PStr '','') (map (\<lambda>n. PFormat [PStr ''`'', pv n, PStr ''`'']) ns))"

definition ingress :: "string \<Rightarrow> KubernetesServiceArgs \<Rightarrow> jval list \<Rightarrow> resource" where
  "ingress name args ns =
     child name ''kubernetes.apiextensions.CustomResource'' (name @ ''-ing'')
       [(''api_version'', PStr ''traefik.containo.us/v1alpha1''),
        (''kind'', PStr ''IngressRoute''),
        (''metadata'', PDict [(''name'', PStr name), (''namespace'', PStr (namespace args))]),
        (''spec'',
           PDict
             [(''entryPoints'', PList [PStr ''web'']),
              (''routes'',
                 PList [PDict
                   [(''kind'', PStr ''Rule''),
                    (''match'', PFormat [PStr ''Host('', hosts ns, PStr '')'']),
                    (''priority'', PInt 10),
                    (''services'',
                       PList [PDict
                         [(''kind'', PStr ''Service''),
                          (''name'', PStr name),
                          (''namespace'', PStr (namespace args)),
                          (''passHostHeader'', PBool True),
                          (''port'', PInt (ingress_port args)),
                          (''scheme'', PStr ''http'')]])]])])]"

text \<open>
  Lines 325 to 341, one turn of the loop: the entry \<open>rec\<close> at index \<open>nrec\<close> gets a
  record when \<^verbatim>\<open>rec.get('create_record', True)\<close> is true for Python. The constructor
  of the record raises when the required property \<open>name\<close> is \<open>None\<close>, and then declares
  nothing.
\<close>

definition dns_record :: "string \<Rightarrow> KubernetesServiceArgs \<Rightarrow> nat \<Rightarrow> jval \<Rightarrow> resource" where
  "dns_record name args nrec n =
     child name ''aws.route53.Record'' (name @ ''-record'' @ str_nat nrec)
       [(''zone_id'',
           PInvoke ''aws.route53.get_zone'' [(''name'', PStr ''cloudlan.net'')] ''zone_id''),
        (''name'', pv n),
        (''type'', PStr ''CNAME''),
        (''ttl'', PInt 300),
        (''records'', PList [public_load_balancer args])]"

definition record_step ::
  "string \<Rightarrow> KubernetesServiceArgs \<Rightarrow> nat \<times> jval \<Rightarrow> pyerror + resource list" where
  "record_step name args = (\<lambda>(nrec, rec).
     (case py_get rec ''create_record'' (JBool True) of
        Inl e \<Rightarrow> Inl e
      | Inr c \<Rightarrow>
          if py_truthy c
          then (case py_getitem rec ''name'' of
                  Inl e \<Rightarrow> Inl e
                | Inr n \<Rightarrow>
                    if n = JNone then Inl (TypeError ''Missing required property name'')
                    else Inr [dns_record name args nrec n])
          else Inr []))"

text \<open>Lines 287 to 341: nothing is declared for an empty hostname list.\<close>

definition ingress_steps ::
  "string \<Rightarrow> KubernetesServiceArgs \<Rightarrow> (pyerror + resource list) list" where
  "ingress_steps name args =
     (if length (hostname_list args) > 0
      then (case host_names (hostname_list args) of
              Inl e \<Rightarrow> Inl e
            | Inr ns \<Rightarrow> Inr [ingress name args ns])
           # map (record_step name args) (enumerate 0 (hostname_list args))
      else [])"

text \<open>
  \<^verbatim>\<open>KubernetesService.__init__\<close>: the exception raised, if any, and the resources
  declared, in order.
\<close>

definition KubernetesService ::
  "string \<Rightarrow> KubernetesServiceArgs \<Rightarrow> pyerror option \<times> resource list" where
  "KubernetesService name args =
     run_steps
       ([Inr (policy_step name args),
         Inr [service_role name args],
         Inr [sa name args],
         Inr (roleattach_step name args),
         Inr [secrets name args],
         Inr [deployment name args],
         Inr [autoscaling name args],
         Inr [service name args]]
        @ ingress_steps name args)"

subsection \<open>Reading the declared resources\<close>

definition of_type :: "string \<Rightarrow> resource list \<Rightarrow> resource list" where
  "of_type t rs = filter (\<lambda>r. rtype r = t) rs"

section \<open>The database component (modules/db/db.py)\<close>

text \<open>
  \<^verbatim>\<open>RdsDbArgs\<close>. The component branches on \<open>is_prod_database\<close> with \<^verbatim>\<open>if\<close> and \<^verbatim>\<open>not\<close>, so
  it is a Python \<^verbatim>\<open>bool\<close>; the other arguments are handed on as they are.
\<close>

record RdsDbArgs =
  db_base_tags :: pval
  cidr_blocks :: pval
  is_prod_database :: bool
  major_version :: pval
  private_subnets :: pval
  serverless_max_capacity :: pval
  storage_size :: pval
  vpc_id :: pval
  zone_name :: pval

text \<open>
  The constructor of \<^verbatim>\<open>RdsDbArgs\<close> with its defaults: \<open>is_prod_database = False\<close>,
  \<open>serverless_max_capacity = 3\<close>, \<open>storage_size = 20\<close>. An optional argument the caller
  leaves out is \<open>None\<close> here.
\<close>

definition RdsDbArgs_init ::
  "pval \<Rightarrow> pval \<Rightarrow> pval \<Rightarrow> pval \<Rightarrow> pval \<Rightarrow> pval \<Rightarrow> bool option \<Rightarrow> pval option \<Rightarrow> pval option
     \<Rightarrow> RdsDbArgs" where
  "RdsDbArgs_init tags cidrs major subnets vpc zone is_prod max_capacity disk =
     \<lparr>db_base_tags = tags,
      cidr_blocks = cidrs,
      is_prod_database = (case is_prod of None \<Rightarrow> False | Some b \<Rightarrow> b),
      major_version = major,
      private_subnets = subnets,
      serverless_max_capacity = (case max_capacity of None \<Rightarrow> PInt 3 | Some c \<Rightarrow> c),
      storage_size = (case disk of None \<Rightarrow> PInt 20 | Some s \<Rightarrow> s),
      vpc_id = vpc,
      zone_name = zone\<rparr>"

definition zone_id :: "RdsDbArgs \<Rightarrow> pval" where
  "zone_id args = PInvoke ''aws.route53.get_zone'' [(''name'', zone_name args)] ''zone_id''"

text \<open>Lines 82 to 101: one parameter group for each key of \<open>db_versions\<close>.\<close>

definition db_versions :: "(string \<times> string) list" where
  "db_versions = [(''8.0'', ''3.06'')]"

definition db_parameter_group :: "string \<Rightarrow> RdsDbArgs \<Rightarrow> string \<Rightarrow> resource" where
  "db_parameter_group name args v =
     child name ''aws.rds.ParameterGroup'' (name @ ''-db-mysql-'' @ v)
       [(''family'', PStr (''aurora-mysql'' @ v)),
        (''name'', PStr (''mysql'' @ py_replace v ''.'' [])),
        (''tags'', db_base_tags args)]"

definition db_subnet :: "string \<Rightarrow> RdsDbArgs \<Rightarrow> resource" where
  "db_subnet name args =
     child name ''aws.rds.SubnetGroup'' (name @ ''-db-subnet'')
       [(''description'', PStr ''Mysql db subnet''),
        (''subnet_ids'', private_subnets args),
        (''tags'', db_base_tags args)]"

definition db_security_group :: "string \<Rightarrow> RdsDbArgs \<Rightarrow> resource" where
  "db_security_group name args =
     child name ''aws.ec2.SecurityGroup'' (name @ ''-db-security-group'')
       [(''description'', PStr ''main db access''),
        (''ingress'',
           PList [PDict [(''cidr_blocks'', cidr_blocks args),
                         (''protocol'', PStr ''tcp''),
                         (''from_port'', PInt 3306),
                         (''to_port'', PInt 3306)]]),
        (''egress'',
           PList [PDict [(''protocol'', PStr ''-1''),
                         (''from_port'', PInt 0),
                         (''to_port'', PInt 0),
                         (''cidr_blocks'', PList [PStr ''0.0.0.0/0''])]]),
        (''vpc_id'', vpc_id args),
        (''tags'', db_base_tags args)]"

text \<open>Lines 139 to 147: the password, its result declared an additional secret output.\<close>

definition db_password :: "string \<Rightarrow> resource" where
  "db_password name =
     \<lparr>rtype = ''random.RandomPassword'',
      rname = name @ ''-db-mysql-password'',
      props = [(''length'', PInt 32), (''special'', PBool False)],
      ropts = [(''parent'', PStr name),
               (''additional_secret_outputs'', PList [PStr ''result''])]\<rparr>"

definition db_password_result :: "string \<Rightarrow> pval" where
  "db_password_result name = POut (name @ ''-db-mysql-password'') ''result''"

text \<open>Lines 150 to 176: the cluster.\<close>

definition serverless_db :: "string \<Rightarrow> RdsDbArgs \<Rightarrow> resource" where
  "serverless_db name args =
     child name ''aws.rds.Cluster'' (name @ ''-db-cluster'')
       [(''apply_immediately'', PBool True),
        (''allow_major_version_upgrade'', PBool True),
        (''cluster_identifier_prefix'', PStr (name @ ''-db-cluster'')),
        (''database_name'', PStr ''demoapp''),
        (''db_subnet_group_name'', POut (name @ ''-db-subnet'') ''name''),
        (''engine'', PStr ''aurora-mysql''),
        (''engine_mode'', PStr ''provisioned''),
        (''engine_version'', PStr ''8.0.mysql_aurora.3.06.0''),
        (''final_snapshot_identifier'',
           (if is_prod_database args then PStr (name @ ''-db-cluster'') else PNone)),
        (''master_username'', PStr ''root''),
        (''master_password'', db_password_result name),
        (''skip_final_snapshot'', PBool (\<not> is_prod_database args)),
        (''serverlessv2_scaling_configuration'',
           PDict [(''min_capacity'', PInt 2),
                  (''max_capacity'', serverless_max_capacity args)]),
        (''vpc_security_group_ids'', PList [POut (name @ ''-db-security-group'') ''id'']),
        (''storage_encrypted'', PBool True),
        (''tags'', db_base_tags args)]"

definition db_cluster_instance :: "string \<Rightarrow> RdsDbArgs \<Rightarrow> resource" where
  "db_cluster_instance name args =
     child name ''aws.rds.ClusterInstance'' (name @ ''-db-instance'')
       [(''apply_immediately'', PBool True),
        (''ca_cert_identifier'',
           PInvoke ''aws.rds.get_certificate'' [(''id'', PStr ''rds-ca-rsa2048-g1'')] ''id''),
        (''cluster_identifier'', POut (name @ ''-db-cluster'') ''id''),
        (''instance_class'', PStr ''db.serverless''),
        (''engine'', POut (name @ ''-db-cluster'') ''engine''),
        (''engine_version'', POut (name @ ''-db-cluster'') ''engine_version''),
        (''tags'', db_base_tags args)]"

text \<open>Lines 195 to 214: the proxy's secret and its version, which holds the password.\<close>

definition db_proxy_secret :: "string \<Rightarrow> RdsDbArgs \<Rightarrow> resource" where
  "db_proxy_secret name args =
     child name ''aws.secretsmanager.Secret'' (name @ ''-db-proxy-secret'')
       [(''description'', PStr ''Secret for the RDS proxy''),
        (''tags'', db_base_tags args)]"

definition db_proxy_secret_version :: "string \<Rightarrow> RdsDbArgs \<Rightarrow> resource" where
  "db_proxy_secret_version name args =
     child name ''aws.secretsmanager.SecretVersion'' (name @ ''-db-proxy-secret'')
       [(''secret_id'', POut (name @ ''-db-proxy-secret'') ''id''),
        (''secret_string'',
           PJson (PDict [(''username'', PStr ''root''),
                         (''password'', db_password_result name)]))]"

definition db_proxy_role :: "string \<Rightarrow> RdsDbArgs \<Rightarrow> resource" where
  "db_proxy_role name args =
     child name ''aws.iam.Role'' (name @ ''-db-proxy-role'')
       [(''name'', PStr (name @ ''-db-proxy-role'')),
        (''assume_role_policy'',
           PJson (PDict
             [(''Version'', PStr ''2012-10-17''),
              (''Statement'',
                 PList [PDict [(''Action'', PStr ''sts:AssumeRole''),
                               (''Effect'', PStr ''Allow''),
                               (''Sid'', PStr ''RoleAssume''),
                               (''Principal'',
                                  PDict [(''Service'', PStr ''rds.amazonaws.com'')])]])])),
        (''inline_policies'',
           PList [PDict
             [(''name'', PStr ''SecretManagerAccess''),
              (''policy'',
                 PJson (PDict
                   [(''Version'', PStr ''2012-10-17''),
                    (''Statement'',
                       PList
                         [PDict [(''Action'',
                                    PList [PStr ''secretsmanager:GetRandomPassword'',
                                           PStr ''secretsmanager:CreateSecret'',
                                           PStr ''secretsmanager:ListSecrets'',
                                           PStr ''secretsmanager:GetSecretValue'']),
                                 (''Effect'', PStr ''Allow''),
                                 (''Resource'',
                                    PList [POut (name @ ''-db-proxy-secret'') ''arn''])],
                          PDict [(''Action'', PList [PStr ''kms:Decrypt'']),
                                 (''Effect'', PStr ''Allow''),
                                 (''Resource'', PStr ''*'')]])]))]])]"

definition db_proxy :: "string \<Rightarrow> RdsDbArgs \<Rightarrow> resource" where
  "db_proxy name args =
     child name ''aws.rds.Proxy'' (name @ ''-db-proxy'')
       [(''name'', PStr (name @ ''-db-proxy'')),
        (''debug_logging'', PBool True),
        (''engine_family'', PStr ''MYSQL''),
        (''idle_client_timeout'', PInt 1800),
        (''require_tls'', PBool False),
        (''role_arn'', POut (name @ ''-db-proxy-role'') ''arn''),
        (''vpc_security_group_ids'', PList [POut (name @ ''-db-security-group'') ''id'']),
        (''vpc_subnet_ids'', private_subnets args),
        (''auths'',
           PList [PDict [(''auth_scheme'', PStr ''SECRETS''),
                         (''description'', PStr ''db-creds''),
                         (''iam_auth'', PStr ''DISABLED''),
                         (''secret_arn'', POut (name @ ''-db-proxy-secret'') ''arn'')]]),
        (''tags'', db_base_tags args)]"

definition db_proxy_default_target :: "string \<Rightarrow> RdsDbArgs \<Rightarrow> resource" where
  "db_proxy_default_target name args =
     child name ''aws.rds.ProxyDefaultTargetGroup'' (name @ ''-db-proxy-default-target-group'')
       [(''db_proxy_name'', POut (name @ ''-db-proxy'') ''name''),
        (''connection_pool_config'',
           PDict [(''connection_borrow_timeout'', PInt 120),
                  (''max_connections_percent'', PInt 100),
                  (''max_idle_connections_percent'', PInt 50),
                  (''session_pinning_filters'', PList [PStr ''EXCLUDE_VARIABLE_SETS''])])]"

definition db_proxy_target :: "string \<Rightarrow> RdsDbArgs \<Rightarrow> resource" where
  "db_proxy_target name args =
     child name ''aws.rds.ProxyTarget'' (name @ ''-db-proxy-target-group'')
       [(''db_proxy_name'', POut (name @ ''-db-proxy'') ''name''),
        (''db_cluster_identifier'', POut (name @ ''-db-cluster'') ''cluster_identifier''),
        (''target_group_name'', POut (name @ ''-db-proxy-default-target-group'') ''name'')]"

definition db_proxy_endpoint :: "string \<Rightarrow> RdsDbArgs \<Rightarrow> resource" where
  "db_proxy_endpoint name args =
     child name ''aws.rds.ProxyEndpoint'' (name @ ''-db-proxy-endpoint'')
       [(''db_proxy_endpoint_name'', PStr (name @ ''-db-proxy-endpoint'')),
        (''db_proxy_name'', POut (name @ ''-db-proxy'') ''name''),
        (''vpc_subnet_ids'', private_subnets args),
        (''vpc_security_group_ids'', PList [POut (name @ ''-db-security-group'') ''id'']),
        (''target_role'', PStr ''READ_WRITE''),
        (''tags'', db_base_tags args)]"

definition db_record :: "string \<Rightarrow> RdsDbArgs \<Rightarrow> resource" where
  "db_record name args =
     child name ''aws.route53.Record'' (name @ ''-db-record'')
       [(''zone_id'', zone_id args),
        (''name'', PStr ''db''),
        (''type'', PStr ''CNAME''),
        (''ttl'', PInt 300),
        (''records'', PList [POut (name @ ''-db-cluster'') ''endpoint''])]"

definition db_proxy_record :: "string \<Rightarrow> RdsDbArgs \<Rightarrow> resource" where
  "db_proxy_record name args =
     child name ''aws.route53.Record'' (name @ ''-db-proxy-record'')
       [(''zone_id'', zone_id args),
        (''name'', PStr ''db-proxy''),
        (''type'', PStr ''CNAME''),
        (''ttl'', PInt 300),
        (''records'', PList [POut (name @ ''-db-proxy-endpoint'') ''endpoint''])]"

text \<open>\<^verbatim>\<open>RdsDb.__init__\<close>: nothing in it can raise; the resources it declares, in order.\<close>

definition RdsDb :: "string \<Rightarrow> RdsDbArgs \<Rightarrow> resource list" where
  "RdsDb name args =
     map (\<lambda>(v, minor). db_parameter_group name args v) db_versions
     @ [db_subnet name args,
        db_security_group name args,
        db_password name,
        serverless_db name args,
        db_cluster_instance name args,
        db_proxy_secret name args,
        db_proxy_secret_version name args,
        db_proxy_role name args,
        db_proxy name args,
        db_proxy_default_target name args,
        db_proxy_target name args,
        db_proxy_endpoint name args,
        db_record name args,
        db_proxy_record name args]"

subsection \<open>Where a value goes\<close>

text \<open>\<open>mentions x v\<close>: the value \<open>v\<close> is \<open>x\<close> or is built from \<open>x\<close>.\<close>

fun mentions :: "pval \<Rightarrow> pval \<Rightarrow> bool" where
  "mentions x (PList vs) = (x = PList vs \<or> list_ex (mentions x) vs)"
| "mentions x (PDict kvs) = (x = PDict kvs \<or> list_ex (mentions x) (map snd kvs))"
| "mentions x (PInvoke f kvs a) = (x = PInvoke f kvs a \<or> list_ex (mentions x) (map snd kvs))"
| "mentions x (PJson v) = (x = PJson v \<or> mentions x v)"
| "mentions x (PYaml v) = (x = PYaml v \<or> mentions x v)"
| "mentions x (PFormat vs) = (x = PFormat vs \<or> list_ex (mentions x) vs)"
| "mentions x v = (x = v)"

text \<open>The fields, as (resource type, property), whose value is built from \<open>x\<close>.\<close>

definition fields_with :: "pval \<Rightarrow> resource list \<Rightarrow> (string \<times> string) list" where
  "fields_with x rs =
     concat (map (\<lambda>r. map (\<lambda>kv. (rtype r, fst kv)) (filter (\<lambda>kv. mentions x (snd kv)) (props r)))
               rs)"

text \<open>An output of a declared resource is marked secret by the program when the resource
  lists the attribute among its additional secret outputs.\<close>

definition marked_secret :: "resource list \<Rightarrow> string \<Rightarrow> string \<Rightarrow> bool" where
  "marked_secret rs r a =
     list_ex (\<lambda>res. rname res = r
                \<and> (case map_of (ropts res) ''additional_secret_outputs'' of
                      Some (PList xs) \<Rightarrow> PStr a \<in> set xs
                    | _ \<Rightarrow> False)) rs"

text \<open>The arguments of the component, as the values a caller handed in.\<close>

definition args_mention :: "pval \<Rightarrow> RdsDbArgs \<Rightarrow> bool" where
  "args_mention x args =
     list_ex (mentions x)
       [db_base_tags args, cidr_blocks args, major_version args, private_subnets args,
        serverless_max_capacity args, storage_size args, vpc_id args, zone_name args]"

text \<open>
  The fields the provider's schema types as secret and the password is meant for: the
  master password of the cluster and the secret string of the secret version.
\<close>

definition secret_typed_fields :: "(string \<times> string) list" where
  "secret_typed_fields =
     [(''aws.rds.Cluster'', ''master_password''),
      (''aws.secretsmanager.SecretVersion'', ''secret_string'')]"

section \<open>The cluster-services component (modules/svcs/services.py)\<close>

record ServicesArgs =
  svc_base_tags :: pval
  ebs_csi_chart_version :: pval
  kube_users :: "string list"
  public_alb :: pval
  traefik_chart_version :: pval
  svc_vpc_id :: pval
  worker_role_arn :: pval

text \<open>\<^verbatim>\<open>user.split('/')[-1]\<close>: what follows the last slash, the whole string without one.\<close>

definition last_segment :: "string \<Rightarrow> string" where
  "last_segment s = rev (takeWhile (\<lambda>c. c \<noteq> CHR ''/'') (rev s))"

text \<open>Lines 73 to 81.\<close>

definition node_cluster_map_users :: "string list \<Rightarrow> pval" where
  "node_cluster_map_users users =
     PList (map (\<lambda>user. PDict [(''userarn'', PStr user),
                                (''username'', PStr (last_segment user)),
                                (''groups'', PList [PStr ''system:masters''])])
              users)"

text \<open>
  Lines 230 to 249, \<^verbatim>\<open>get_node_roles\<close>: the list that is dumped as YAML. Its second entry
  is written out in the source.
\<close>

definition ci_role_entry :: pval where
  "ci_role_entry =
     PDict [(''rolearn'', PStr ''arn:aws:iam::389169665533:role/ci-role''),
            (''username'', PStr ''ci-user''),
            (''groups'', PList [PStr ''system:masters''])]"

definition node_cluster_map_roles :: "pval \<Rightarrow> pval list" where
  "node_cluster_map_roles worker_role =
     [PDict [(''rolearn'', worker_role),
             (''username'', PStr ''system:node:{{EC2PrivateDNSName}}''),
             (''groups'', PList [PStr ''system:bootstrappers'', PStr ''system:nodes''])],
      ci_role_entry]"

definition get_node_roles :: "pval \<Rightarrow> pval" where
  "get_node_roles worker_role = PYaml (PList (node_cluster_map_roles worker_role))"

text \<open>Lines 83 to 96: \<open>mapRoles\<close> is \<^verbatim>\<open>worker_role_arn.apply(get_node_roles)\<close>.\<close>

definition cluster_auth :: "string \<Rightarrow> ServicesArgs \<Rightarrow> resource" where
  "cluster_auth name args =
     child name ''kubernetes.core.v1.ConfigMap'' (name @ ''-kauth'')
       [(''metadata'', PDict [(''name'', PStr ''aws-auth''), (''namespace'', PStr ''kube-system'')]),
        (''data'',
           PDict [(''mapRoles'', get_node_roles (worker_role_arn args)),
                  (''mapUsers'', PYaml (node_cluster_map_users (kube_users args)))])]"

definition metric_server :: "string \<Rightarrow> resource" where
  "metric_server name =
     child name ''kubernetes.yaml.ConfigFile'' (name @ ''-metric-server'')
       [(''file'', PStr ''metric_server.yaml'')]"

definition ebs_csi :: "string \<Rightarrow> ServicesArgs \<Rightarrow> resource" where
  "ebs_csi name args =
     child name ''kubernetes.helm.v3.Release'' (name @ ''-ebs-csi'')
       [(''chart'', PStr ''aws-ebs-csi-driver''),
        (''namespace'', PStr ''kube-system''),
        (''repository_opts'',
           PDict [(''repo'', PStr ''https://kubernetes-sigs.github.io/aws-ebs-csi-driver'')]),
        (''version'', ebs_csi_chart_version args),
        (''values'', PDict [])]"

definition traefik_ns :: "string \<Rightarrow> resource" where
  "traefik_ns name =
     child name ''kubernetes.core.v1.Namespace'' (name @ ''-traefik-ns'')
       [(''metadata'', PDict [(''name'', PStr ''traefik'')])]"

definition traefik :: "string \<Rightarrow> ServicesArgs \<Rightarrow> resource" where
  "traefik name args =
     child name ''kubernetes.helm.v3.Release'' (name @ ''-traefik'')
       [(''chart'', PStr ''traefik''),
        (''namespace'', POut (name @ ''-traefik-ns'') ''metadata.name''),
        (''repository_opts'', PDict [(''repo'', PStr ''https://traefik.github.io/charts/'')]),
        (''version'', traefik_chart_version args),
        (''values'',
           PDict
             [(''ingressClass'',
                 PDict [(''enabled'', PBool True), (''isDefaultClass'', PBool False)]),
              (''ingressRoute'', PDict [(''dashboard'', PDict [(''enabled'', PBool False)])]),
              (''ports'',
                 PDict [(''traefik'',
                           PDict [(''expose'', PBool True),
                                  (''exposedPort'', PInt 9000),
                                  (''nodePort'', PInt 30900)]),
                        (''web'',
                           PDict [(''expose'', PBool True), (''nodePort'', PInt 32080)])]),
              (''service'', PDict [(''type'', PStr ''NodePort'')])])]"

definition ecr_repo :: "string \<Rightarrow> resource" where
  "ecr_repo name =
     child name ''aws.ecr.Repository'' (name @ ''-ecr-repository'')
       [(''name'', PStr ''demoapp'')]"

definition lifecycle_policy :: "string \<Rightarrow> resource" where
  "lifecycle_policy name =
     child (name @ ''-ecr-repository'') ''aws.ecr.LifecyclePolicy'' (name @ ''-lifecycle-policy'')
       [(''repository'', POut (name @ ''-ecr-repository'') ''name''),
        (''policy'',
           PJson (PDict
             [(''rules'',
                 PList [PDict
                   [(''rulePriority'', PInt 1),
                    (''description'', PStr ''Expire images count more than 30''),
                    (''selection'',
                       PDict [(''tagStatus'', PStr ''any''),
                              (''countType'', PStr ''imageCountMoreThan''),
                              (''countNumber'', PInt 30)]),
                    (''action'', PDict [(''type'', PStr ''expire'')])]])]))]"

text \<open>\<^verbatim>\<open>ServicesResources.__init__\<close>: the resources it declares, in order.\<close>

definition ServicesResources :: "string \<Rightarrow> ServicesArgs \<Rightarrow> resource list" where
  "ServicesResources name args =
     [cluster_auth name args,
      metric_server name,
      ebs_csi name args,
      traefik_ns name,
      traefik name args,
      ecr_repo name,
      lifecycle_policy name]"

text \<open>The \<open>mapRoles\<close> entry of the \<open>aws-auth\<close> ConfigMap among declared resources.\<close>

definition map_roles_of :: "resource \<Rightarrow> pval option" where
  "map_roles_of r =
     (case map_of (props r) ''data'' of
        Some (PDict d) \<Rightarrow> map_of d ''mapRoles''
      | _ \<Rightarrow> None)"

section \<open>The stack entrypoints\<close>

text \<open>
  What a program reads from outside: the stack name (\<^verbatim>\<open>pulumi.get_stack()\<close>), the
  configuration of the stack as raw strings, and the names of the available zones.
  \<^verbatim>\<open>json.loads\<close> and \<^verbatim>\<open>int\<close> are taken as they come, \<open>None\<close> where they raise; \<open>cidr_ok\<close>
  is the check of an address block.
\<close>

record program_env =
  stack :: string
  config :: "string \<Rightarrow> string option"
  json_loads :: "string \<Rightarrow> jval option"
  int_of_str :: "string \<Rightarrow> int option"
  zone_names :: "string list"
  cidr_ok :: "string \<Rightarrow> bool"

text \<open>The run of a program: the exception that ended it, if any, the resources declared
  up to then, and the outputs exported.\<close>

record stack_run =
  raised :: "pyerror option"
  declared :: "resource list"
  exports :: "(string \<times> pval) list"

definition stack_reference :: "string \<Rightarrow> resource" where
  "stack_reference n =
     \<lparr>rtype = ''pulumi:pulumi:StackReference'', rname = n, props = [(''name'', PStr n)],
      ropts = []\<rparr>"


subsection \<open>\<^verbatim>\<open>pulumi.Config\<close>\<close>

definition config_get :: "program_env \<Rightarrow> string \<Rightarrow> jval" where
  "config_get env k = (case config env k of None \<Rightarrow> JNone | Some v \<Rightarrow> JStr v)"

definition config_require :: "program_env \<Rightarrow> string \<Rightarrow> pyerror + string" where
  "config_require env k =
     (case config env k of None \<Rightarrow> Inl (ConfigMissingError k) | Some v \<Rightarrow> Inr v)"

definition config_get_object :: "program_env \<Rightarrow> string \<Rightarrow> pyerror + jval" where
  "config_get_object env k =
     (case config env k of
        None \<Rightarrow> Inr JNone
      | Some v \<Rightarrow>
          (case json_loads env v of None \<Rightarrow> Inl (ConfigTypeError k) | Some j \<Rightarrow> Inr j))"



subsection \<open>Calling a constructor with keywords\<close>




subsection \<open>The application stack (app/__main__.py)\<close>


definition eks_stack :: string where "eks_stack = ''organization/eks/eks-demo''"
definition vpc_stack :: string where "vpc_stack = ''organization/vpc/vpc-demo''"

definition base_tags_of :: "program_env \<Rightarrow> pval" where
  "base_tags_of env = PDict [(''Environment'', PStr (stack env))]"





subsection \<open>The database stack (db/__main__.py)\<close>

definition db_main :: "program_env \<Rightarrow> stack_run" where
  "db_main env =
     (let refs = [stack_reference vpc_stack, stack_reference eks_stack] in
      case config_get_object env ''cidr_blocks'' of
        Inl e \<Rightarrow> \<lparr>raised = Some e, declared = refs, exports = []\<rparr>
      | Inr cidrs \<Rightarrow>
          (case config_require env ''db_major_version'' of
             Inl e \<Rightarrow> \<lparr>raised = Some e, declared = refs, exports = []\<rparr>
           | Inr major \<Rightarrow>
               (let name = stack env @ ''-db'';
                    args = RdsDbArgs_init (base_tags_of env) (pv cidrs) (PStr major)
                             (PStackOut vpc_stack ''private_subnet_ids'')
                             (PStackOut vpc_stack ''vpc_id'')
                             (PStr ''cloudlan.net'')
                             None None
                             (Some (pv (config_get env ''db_storage_size'')))
                in \<lparr>raised = None,
                    declared = refs @ RdsDb name args,
                    exports =
                      [(''db_admin_username'', POut (name @ ''-db-cluster'') ''master_username''),
                       (''db_admin_password'', db_password_result name)]\<rparr>)))"

subsection \<open>The cluster-services stack (services/__main__.py)\<close>




section \<open>The network stack (vpc/__main__.py)\<close>











section \<open>Concrete inputs\<close>

definition demo_args :: "jval list \<Rightarrow> pval list \<Rightarrow> KubernetesServiceArgs" where
  "demo_args hl perms =
     \<lparr>base_tags = PDict [(''Environment'', PStr ''demoapp'')],
      app_name = ''demoapp'',
      container_ports = [3000],
      environment_variables = [],
      image = PStr ''demoapp:latest'',
      kube_issuer = ''https://x.eks.amazonaws.com/id/ABC'',
      namespace = ''demoapp'',
      openid_connector = PStackOut ''organization/eks/eks-demo'' ''cluster_openid_connector'',
      public_load_balancer =
        PStackOut ''organization/eks/eks-demo'' ''cluster_public_load_balancer'',
      secrets_data = PDict [],
      service_permissions = perms,
      replicas = PInt 3,
      hostname_list = hl,
      ingress_port = 3000\<rparr>"

definition demo_hosts :: "jval list" where
  "demo_hosts =
     [JDict [(''name'', JStr ''app.cloudlan.net'')],
      JDict [(''name'', JStr ''www.cloudlan.net''), (''create_record'', JBool False)],
      JDict [(''name'', JStr ''api.cloudlan.net''), (''create_record'', JBool True)]]"

definition null_toggle_hosts :: "jval list" where
  "null_toggle_hosts =
     [JDict [(''name'', JStr ''app.cloudlan.net''), (''create_record'', JNone)]]"

definition demo_db_args :: "bool \<Rightarrow> RdsDbArgs" where
  "demo_db_args is_prod =
     RdsDbArgs_init (PDict [(''Environment'', PStr ''demoapp'')])
       (PList [PStr ''10.0.0.0/16''])
       (PStr ''8.0'')
       (PStackOut ''organization/vpc/vpc-demo'' ''private_subnet_ids'')
       (PStackOut ''organization/vpc/vpc-demo'' ''vpc_id'')
       (PStr ''cloudlan.net'')
       (Some is_prod) None None"

definition demo_services_args :: ServicesArgs where
  "demo_services_args =
     \<lparr>svc_base_tags = PDict [(''Environment'', PStr ''demoapp'')],
      ebs_csi_chart_version = PStr ''2.30.0'',
      kube_users = [''arn:aws:iam::123456789012:user/alice''],
      public_alb = PStackOut ''organization/eks/eks-demo'' ''cluster_public_load_balancer'',
      traefik_chart_version = PStr ''v23.2.0'',
      svc_vpc_id = PStackOut ''organization/vpc/vpc-demo'' ''vpc_id'',
      worker_role_arn = PStr ''arn:aws:iam::123456789012:role/worker''\<rparr>"

text \<open>A stack configuration: every key the programs read is set, but those of \<open>unset\<close>.
  The raw text \<open>[cidrs]\<close> stands for the JSON list of the one block 10.0.0.0/16.\<close>

definition demo_config :: "string list \<Rightarrow> string \<Rightarrow> string option" where
  "demo_config unset k =
     (if k \<in> set unset then None
      else map_of
        [(''app_environment_variables'', ''{}''),
         (''app_hostnames'', ''[]''),
         (''app_image'', ''demoapp:latest''),
         (''app_max_replicas'', ''4''),
         (''app_min_replicas'', ''2''),
         (''app_secrets'', ''{}''),
         (''cidr_blocks'', ''[cidrs]''),
         (''db_major_version'', ''8.0''),
         (''vpc_cidr'', ''10.0.0.0/16''),
         (''eks_ebs_csi_chart_version'', ''2.30.0''),
         (''kube_users'', ''[]'')] k)"

definition demo_json :: "string \<Rightarrow> jval option" where
  "demo_json s =
     map_of [(''{}'', JDict []), (''[]'', JList []),
             (''[cidrs]'', JList [JStr ''10.0.0.0/16''])] s"

definition demo_int :: "string \<Rightarrow> int option" where
  "demo_int s = map_of [(''2'', 2), (''4'', 4)] s"

definition demo_env :: "string list \<Rightarrow> program_env" where
  "demo_env unset =
     \<lparr>stack = ''demoapp'',
      config = demo_config unset,
      json_loads = demo_json,
      int_of_str = demo_int,
      zone_names = [''us-east-1a'', ''us-east-1b'', ''us-east-1c''],
      cidr_ok = (\<lambda>c. c = ''10.0.0.0/16'')\<rparr>"


section \<open>Properties of the application component\<close>

subsection \<open>Running steps\<close>

lemma run_steps_Inr:
  "run_steps (Inr rs # ss) = (fst (run_steps ss), rs @ snd (run_steps ss))"
  by (simp split: prod.splits)

lemma run_steps_all_Inr:
  "run_steps (map Inr rss) = (None, concat rss)"
  by (induction rss) (simp_all add: run_steps_Inr)

lemma run_steps_declared:
  assumes "\<And>rs r. Inr rs \<in> set ss \<Longrightarrow> r \<in> set rs \<Longrightarrow> P r"
    and "r \<in> set (snd (run_steps ss))"
  shows "P r"
  using assms
proof (induction ss rule: run_steps.induct)
  case 1
  then show ?case by simp
next
  case (2 e ss)
  then show ?case by simp
next
  case (3 rs ss)
  from "3.prems"(2) have "r \<in> set rs \<or> r \<in> set (snd (run_steps ss))"
    by (cases "run_steps ss") auto
  then show ?case
  proof
    assume "r \<in> set rs"
    then show ?thesis using "3.prems"(1) [of rs r] by simp
  next
    assume "r \<in> set (snd (run_steps ss))"
    then show ?thesis using "3.IH" "3.prems"(1) by auto
  qed
qed

subsection \<open>String replacement\<close>

lemma replace_from_absent:
  "\<not> py_contains old s \<Longrightarrow> replace_from old new s = s"
  by (induction s) auto

lemma replace_from_prefix:
  assumes "old \<noteq> []"
  shows "replace_from old new (old @ rest) = new @ replace_from old new rest"
proof -
  from assms obtain c cs where "old @ rest = c # cs"
    by (cases old) auto
  moreover have "prefix old (old @ rest)" by simp
  moreover have "drop (length old) (old @ rest) = rest" by simp
  ultimately show ?thesis using assms
    by (metis replace_from.simps(2))
qed

lemma strip_scheme:
  "\<not> py_contains ''https://'' rest \<Longrightarrow>
     py_replace (''https://'' @ rest) ''https://'' [] = rest"
  unfolding py_replace_def
  using replace_from_prefix [of "''https://''" "[]" rest] replace_from_absent
  by simp

lemma KubernetesService_declared:
  "snd (KubernetesService name args) =
     policy_step name args @ [service_role name args, sa name args]
     @ roleattach_step name args
     @ [secrets name args, deployment name args, autoscaling name args, service name args]
     @ snd (run_steps (ingress_steps name args))"
  by (simp add: KubernetesService_def run_steps_Inr del: run_steps.simps)

lemma KubernetesService_raised:
  "fst (KubernetesService name args) = fst (run_steps (ingress_steps name args))"
  by (simp add: KubernetesService_def run_steps_Inr del: run_steps.simps)

lemma ingress_steps_types:
  assumes "r \<in> set (snd (run_steps (ingress_steps name args)))"
  shows "rtype r = ''kubernetes.apiextensions.CustomResource'' \<or> rtype r = ''aws.route53.Record''"
proof (rule run_steps_declared [OF _ assms])
  fix rs r'
  assume "Inr rs \<in> set (ingress_steps name args)" and "r' \<in> set rs"
  then show "rtype r' = ''kubernetes.apiextensions.CustomResource''
               \<or> rtype r' = ''aws.route53.Record''"
    by (auto simp: ingress_steps_def record_step_def ingress_def dns_record_def child_def
             split: if_splits sum.splits)
qed

lemma of_type_ingress_steps:
  assumes "t \<noteq> ''kubernetes.apiextensions.CustomResource''" and "t \<noteq> ''aws.route53.Record''"
  shows "of_type t (snd (run_steps (ingress_steps name args))) = []"
  unfolding of_type_def filter_empty_conv
  using assms ingress_steps_types by blast

lemma of_type_append: "of_type t (xs @ ys) = of_type t xs @ of_type t ys"
  by (simp add: of_type_def)

lemma of_type_Cons:
  "of_type t (child owner rt rn ps # rs) =
     (if rt = t then child owner rt rn ps # of_type t rs else of_type t rs)"
  by (simp add: of_type_def child_def)

lemma of_type_Nil: "of_type t [] = []"
  by (simp add: of_type_def)

lemmas component_parts =
  policy_step_def service_role_def sa_def roleattach_step_def secrets_def deployment_def
  autoscaling_def service_def

text \<open>
  C1. The trust condition of the service role tests, with \<open>StringEquals\<close>, the variable
  made of the issuer without its \<open>https://\<close> scheme followed by \<open>:sub\<close> against the one
  value \<open>system:serviceaccount:<namespace>:<name>\<close>, for every namespace and every name;
  the condition is the only one of the assume-role policy of the role the component
  declares. The issuer is a URL whose only \<open>https://\<close> is its scheme.
\<close>

theorem trust_condition_subject:
  assumes "kube_issuer args = ''https://'' @ rest"
    and "\<not> py_contains ''https://'' rest"
  shows "trust_condition name args =
           PDict [(''test'', PStr ''StringEquals''),
                  (''variable'', PStr (rest @ '':sub'')),
                  (''values'',
                     PList [PStr (''system:serviceaccount:'' @ namespace args @ '':'' @ name)])]
         \<and> service_role_assume_policy name args =
             PInvoke ''aws.iam.get_policy_document''
               [(''statements'',
                   PList [PDict
                     [(''effect'', PStr ''Allow''),
                      (''principals'',
                         PList [PDict [(''identifiers'', PList [openid_connector args]),
                                       (''type'', PStr ''Federated'')]]),
                      (''actions'', PList [PStr ''sts:AssumeRoleWithWebIdentity'']),
                      (''conditions'', PList [trust_condition name args])]])]
               ''json''
         \<and> of_type ''aws.iam.Role'' (snd (KubernetesService name args))
             = [child name ''aws.iam.Role'' (name @ ''-role'')
                  [(''assume_role_policy'', service_role_assume_policy name args),
                   (''name'', PStr (name @ ''-role'')),
                   (''tags'', base_tags args)]]"
proof -
  have v: "py_replace (kube_issuer args) ''https://'' [] = rest"
    using assms strip_scheme by simp
  have c: "trust_condition name args =
           PDict [(''test'', PStr ''StringEquals''),
                  (''variable'', PStr (rest @ '':sub'')),
                  (''values'',
                     PList [PStr (''system:serviceaccount:'' @ namespace args @ '':'' @ name)])]"
    by (simp add: trust_condition_def v)
  have p: "service_role_assume_policy name args =
             PInvoke ''aws.iam.get_policy_document''
               [(''statements'',
                   PList [PDict
                     [(''effect'', PStr ''Allow''),
                      (''principals'',
                         PList [PDict [(''identifiers'', PList [openid_connector args]),
                                       (''type'', PStr ''Federated'')]]),
                      (''actions'', PList [PStr ''sts:AssumeRoleWithWebIdentity'']),
                      (''conditions'', PList [trust_condition name args])]])]
               ''json''"
    by (simp add: service_role_assume_policy_def)
  have i: "of_type ''aws.iam.Role'' (snd (run_steps (ingress_steps name args))) = []"
    by (rule of_type_ingress_steps) simp_all
  have r: "of_type ''aws.iam.Role'' (snd (KubernetesService name args))
             = [child name ''aws.iam.Role'' (name @ ''-role'')
                  [(''assume_role_policy'', service_role_assume_policy name args),
                   (''name'', PStr (name @ ''-role'')),
                   (''tags'', base_tags args)]]"
    by (simp add: KubernetesService_declared component_parts of_type_append of_type_Cons
          of_type_Nil i)
  from c p r show ?thesis by blast
qed

theorem trust_condition_subject_witness:
  "kube_issuer (demo_args [] []) = ''https://'' @ ''x.eks.amazonaws.com/id/ABC''
   \<and> \<not> py_contains ''https://'' ''x.eks.amazonaws.com/id/ABC''
   \<and> trust_condition ''demoapp-app'' (demo_args [] []) =
       PDict [(''test'', PStr ''StringEquals''),
              (''variable'', PStr ''x.eks.amazonaws.com/id/ABC:sub''),
              (''values'', PList [PStr ''system:serviceaccount:demoapp:demoapp-app''])]"
proof -
  have a: "kube_issuer (demo_args [] []) = ''https://'' @ ''x.eks.amazonaws.com/id/ABC''"
    by (simp add: demo_args_def)
  have b: "\<not> py_contains ''https://'' ''x.eks.amazonaws.com/id/ABC''"
    by simp
  have n: "namespace (demo_args [] []) = ''demoapp''"
    by (simp add: demo_args_def)
  from trust_condition_subject [OF a b, of "''demoapp-app''"] a b n show ?thesis
    by simp
qed

text \<open>
  C2. The autoscaler the component declares has \<open>min_replicas\<close> 1 and \<open>max_replicas\<close> 6
  whatever the arguments are, the \<open>replicas\<close> argument included; both metrics have the
  target 60.
\<close>

theorem autoscaling_bounds_are_literals:
  "of_type ''kubernetes.autoscaling.v2.HorizontalPodAutoscaler''
     (snd (KubernetesService name args)) = [autoscaling name args]
   \<and> map_of (props (autoscaling name args)) ''spec'' = Some (PDict (autoscaling_spec name args))
   \<and> map_of (autoscaling_spec name args) ''min_replicas'' = Some (PInt 1)
   \<and> map_of (autoscaling_spec name args) ''max_replicas'' = Some (PInt 6)
   \<and> map_of (autoscaling_spec name args) ''metrics''
       = Some (PList [metric_spec ''cpu'', metric_spec ''memory''])"
proof -
  have i: "of_type ''kubernetes.autoscaling.v2.HorizontalPodAutoscaler''
             (snd (run_steps (ingress_steps name args))) = []"
    by (rule of_type_ingress_steps) simp_all
  have "of_type ''kubernetes.autoscaling.v2.HorizontalPodAutoscaler''
          (snd (KubernetesService name args)) = [autoscaling name args]"
    by (simp add: KubernetesService_declared component_parts of_type_append of_type_Cons
          of_type_Nil i)
  moreover have "map_of (props (autoscaling name args)) ''spec''
                   = Some (PDict (autoscaling_spec name args))"
    by (simp add: autoscaling_def child_def)
  moreover have "map_of (autoscaling_spec name args) ''min_replicas'' = Some (PInt 1)"
    by (simp add: autoscaling_spec_def)
  moreover have "map_of (autoscaling_spec name args) ''max_replicas'' = Some (PInt 6)"
    by (simp add: autoscaling_spec_def)
  moreover have "map_of (autoscaling_spec name args) ''metrics''
                   = Some (PList [metric_spec ''cpu'', metric_spec ''memory''])"
    by (simp add: autoscaling_spec_def)
  ultimately show ?thesis by blast
qed

text \<open>
  C6. With an empty list of service permissions the component declares no IAM policy
  and no role-policy attachment; with a non-empty list it declares exactly one of each.
\<close>

theorem policy_only_with_permissions:
  "(service_permissions args = [] \<longrightarrow>
      of_type ''aws.iam.Policy'' (snd (KubernetesService name args)) = []
      \<and> of_type ''aws.iam.RolePolicyAttachment'' (snd (KubernetesService name args)) = [])
   \<and> (service_permissions args \<noteq> [] \<longrightarrow>
      of_type ''aws.iam.Policy'' (snd (KubernetesService name args)) = policy_step name args
      \<and> length (policy_step name args) = 1
      \<and> of_type ''aws.iam.RolePolicyAttachment'' (snd (KubernetesService name args))
          = roleattach_step name args
      \<and> length (roleattach_step name args) = 1)"
proof -
  have i: "of_type ''aws.iam.Policy'' (snd (run_steps (ingress_steps name args))) = []"
    by (rule of_type_ingress_steps) simp_all
  have j: "of_type ''aws.iam.RolePolicyAttachment''
             (snd (run_steps (ingress_steps name args))) = []"
    by (rule of_type_ingress_steps) simp_all
  show ?thesis
    by (simp add: KubernetesService_declared component_parts of_type_append of_type_Cons
          of_type_Nil i j)
qed

theorem policy_only_with_permissions_witness:
  "service_permissions (demo_args [] []) = []
   \<and> of_type ''aws.iam.Policy'' (snd (KubernetesService ''demoapp-app'' (demo_args [] []))) = []
   \<and> of_type ''aws.iam.RolePolicyAttachment''
        (snd (KubernetesService ''demoapp-app'' (demo_args [] []))) = []
   \<and> service_permissions (demo_args [] [PDict [(''actions'', PList [PStr ''s3:GetObject''])]])
       \<noteq> []
   \<and> length (of_type ''aws.iam.Policy''
        (snd (KubernetesService ''demoapp-app''
           (demo_args [] [PDict [(''actions'', PList [PStr ''s3:GetObject''])]])))) = 1"
proof -
  have a: "service_permissions (demo_args [] []) = []"
    by (simp add: demo_args_def)
  have b: "service_permissions (demo_args [] [PDict [(''actions'', PList [PStr ''s3:GetObject''])]])
             \<noteq> []"
    by (simp add: demo_args_def)
  from policy_only_with_permissions [of "demo_args [] []" "''demoapp-app''"] a
    policy_only_with_permissions
      [of "demo_args [] [PDict [(''actions'', PList [PStr ''s3:GetObject''])]]" "''demoapp-app''"] b
  show ?thesis by simp
qed

subsection \<open>The hostname loop\<close>

declare str_nat.simps [simp del]

text \<open>
  C5. The loop tests the truth value of \<^verbatim>\<open>rec.get('create_record', True)\<close>. Of three
  entries, the first without the key, the second with \<open>False\<close>, the third with \<open>True\<close>,
  the first and the third get a record and the second gets none. An entry that holds
  \<open>None\<close> for the key, which is not \<open>False\<close>, gets no record either, and nothing is
  raised: there the loop departs from the claim and from the comment above it.
\<close>

theorem toggle_tests_truth_value:
  "fst (KubernetesService ''demoapp-app'' (demo_args demo_hosts [])) = None
   \<and> of_type ''aws.route53.Record''
        (snd (KubernetesService ''demoapp-app'' (demo_args demo_hosts [])))
       = [dns_record ''demoapp-app'' (demo_args demo_hosts []) 0 (JStr ''app.cloudlan.net''),
          dns_record ''demoapp-app'' (demo_args demo_hosts []) 2 (JStr ''api.cloudlan.net'')]
   \<and> map_of [(''name'', JStr ''app.cloudlan.net''), (''create_record'', JNone)] ''create_record''
       \<noteq> Some (JBool False)
   \<and> fst (KubernetesService ''demoapp-app'' (demo_args null_toggle_hosts [])) = None
   \<and> of_type ''aws.route53.Record''
        (snd (KubernetesService ''demoapp-app'' (demo_args null_toggle_hosts []))) = []"
proof -
  have hl: "hostname_list (demo_args demo_hosts []) = demo_hosts"
    by (simp add: demo_args_def)
  have d: "run_steps (ingress_steps ''demoapp-app'' (demo_args demo_hosts []))
             = (None, [ingress ''demoapp-app'' (demo_args demo_hosts [])
                         [JStr ''app.cloudlan.net'', JStr ''www.cloudlan.net'',
                          JStr ''api.cloudlan.net''],
                       dns_record ''demoapp-app'' (demo_args demo_hosts []) 0
                         (JStr ''app.cloudlan.net''),
                       dns_record ''demoapp-app'' (demo_args demo_hosts []) 2
                         (JStr ''api.cloudlan.net'')])"
    unfolding ingress_steps_def hl
    by (simp add: demo_hosts_def record_step_def numeral_2_eq_2)
  have s: "run_steps (ingress_steps ''demoapp-app'' (demo_args null_toggle_hosts []))
             = (None, [ingress ''demoapp-app'' (demo_args null_toggle_hosts [])
                         [JStr ''app.cloudlan.net'']])"
    by (simp add: ingress_steps_def demo_args_def null_toggle_hosts_def record_step_def)
  have "fst (KubernetesService ''demoapp-app'' (demo_args demo_hosts [])) = None"
    by (simp add: KubernetesService_raised d)
  moreover have "of_type ''aws.route53.Record''
        (snd (KubernetesService ''demoapp-app'' (demo_args demo_hosts [])))
       = [dns_record ''demoapp-app'' (demo_args demo_hosts []) 0 (JStr ''app.cloudlan.net''),
          dns_record ''demoapp-app'' (demo_args demo_hosts []) 2 (JStr ''api.cloudlan.net'')]"
    by (simp add: KubernetesService_declared component_parts of_type_append of_type_Cons
          of_type_Nil d ingress_def dns_record_def)
  moreover have "fst (KubernetesService ''demoapp-app'' (demo_args null_toggle_hosts [])) = None"
    by (simp add: KubernetesService_raised s)
  moreover have "of_type ''aws.route53.Record''
        (snd (KubernetesService ''demoapp-app'' (demo_args null_toggle_hosts []))) = []"
    by (simp add: KubernetesService_declared component_parts of_type_append of_type_Cons
          of_type_Nil s ingress_def)
  ultimately show ?thesis by simp
qed

section \<open>Properties of the database component\<close>

lemma of_type_literal:
  "of_type t (\<lparr>rtype = rt, rname = rn, props = ps, ropts = os\<rparr> # rs) =
     (if rt = t then \<lparr>rtype = rt, rname = rn, props = ps, ropts = os\<rparr> # of_type t rs
      else of_type t rs)"
  by (simp add: of_type_def)

lemmas db_parts =
  db_parameter_group_def db_subnet_def db_security_group_def db_password_def
  serverless_db_def db_cluster_instance_def db_proxy_secret_def db_proxy_secret_version_def
  db_proxy_role_def db_proxy_def db_proxy_default_target_def db_proxy_target_def
  db_proxy_endpoint_def db_record_def db_proxy_record_def

lemma RdsDb_cluster:
  "of_type ''aws.rds.Cluster'' (RdsDb name args) = [serverless_db name args]"
  by (simp add: RdsDb_def db_versions_def db_parts of_type_Cons of_type_literal of_type_Nil)

text \<open>
  C4. The component declares one database cluster. When \<open>is_prod_database\<close> is true the
  cluster has \<open>skip_final_snapshot\<close> false and a final snapshot identifier that is a
  non-empty string; when it is false the cluster has \<open>skip_final_snapshot\<close> true.
\<close>

theorem final_snapshot_follows_prod_flag:
  "of_type ''aws.rds.Cluster'' (RdsDb name args) = [serverless_db name args]
   \<and> (is_prod_database args \<longrightarrow>
        map_of (props (serverless_db name args)) ''skip_final_snapshot'' = Some (PBool False)
        \<and> map_of (props (serverless_db name args)) ''final_snapshot_identifier''
            = Some (PStr (name @ ''-db-cluster''))
        \<and> name @ ''-db-cluster'' \<noteq> [])
   \<and> (\<not> is_prod_database args \<longrightarrow>
        map_of (props (serverless_db name args)) ''skip_final_snapshot'' = Some (PBool True))"
  by (simp add: RdsDb_cluster) (simp add: serverless_db_def child_def)

theorem final_snapshot_follows_prod_flag_witness:
  "is_prod_database (demo_db_args True)
   \<and> map_of (props (serverless_db ''demoapp-db'' (demo_db_args True))) ''skip_final_snapshot''
       = Some (PBool False)
   \<and> map_of (props (serverless_db ''demoapp-db'' (demo_db_args True)))
         ''final_snapshot_identifier'' = Some (PStr ''demoapp-db-db-cluster'')
   \<and> \<not> is_prod_database (demo_db_args False)
   \<and> map_of (props (serverless_db ''demoapp-db'' (demo_db_args False))) ''skip_final_snapshot''
       = Some (PBool True)"
proof -
  have t: "is_prod_database (demo_db_args True)"
    by (simp add: demo_db_args_def RdsDbArgs_init_def)
  have f: "\<not> is_prod_database (demo_db_args False)"
    by (simp add: demo_db_args_def RdsDbArgs_init_def)
  from final_snapshot_follows_prod_flag [of "''demoapp-db''" "demo_db_args True"] t
    final_snapshot_follows_prod_flag [of "''demoapp-db''" "demo_db_args False"] f
  show ?thesis by simp
qed

subsection \<open>Where the password goes\<close>

lemma pv_mentions_no_output: "\<not> mentions (POut r a) (pv j)"
  by (induction j) (auto simp: list_ex_iff)

lemma fields_with_Nil: "fields_with x [] = []"
  by (simp add: fields_with_def)

lemma fields_with_Cons:
  "fields_with x (r # rs) =
     map (\<lambda>kv. (rtype r, fst kv)) (filter (\<lambda>kv. mentions x (snd kv)) (props r))
     @ fields_with x rs"
  by (simp add: fields_with_def)

lemma args_mention_fields:
  assumes "\<not> args_mention x args"
  shows "\<not> mentions x (db_base_tags args)" "\<not> mentions x (cidr_blocks args)"
    "\<not> mentions x (private_subnets args)" "\<not> mentions x (serverless_max_capacity args)"
    "\<not> mentions x (vpc_id args)" "\<not> mentions x (zone_name args)"
  using assms by (simp_all add: args_mention_def)

lemma RdsDb_fields_with_password:
  assumes "\<not> args_mention (db_password_result name) args"
  shows "fields_with (db_password_result name) (RdsDb name args)
           = [(''aws.rds.Cluster'', ''master_password''),
              (''aws.secretsmanager.SecretVersion'', ''secret_string'')]"
  using args_mention_fields [OF assms]
  by (simp add: RdsDb_def db_versions_def db_parts zone_id_def child_def fields_with_Cons
        fields_with_Nil db_password_result_def)

lemma RdsDb_password_marked:
  "marked_secret (RdsDb name args) (name @ ''-db-mysql-password'') ''result''"
  by (simp add: marked_secret_def RdsDb_def db_versions_def db_password_def)

lemma RdsDb_password_resource:
  "of_type ''random.RandomPassword'' (RdsDb name args) = [db_password name]"
  by (simp add: RdsDb_def db_versions_def db_parts of_type_Cons of_type_literal of_type_Nil)

section \<open>Properties of the stacks\<close>

lemma marked_secret_append:
  "marked_secret (xs @ ys) r a = (marked_secret xs r a \<or> marked_secret ys r a)"
  by (simp add: marked_secret_def)

lemma fields_with_append:
  "fields_with x (xs @ ys) = fields_with x xs @ fields_with x ys"
  by (simp add: fields_with_def)

lemma db_main_run:
  assumes "raised (db_main env) = None"
  obtains cidrs major where
    "db_main env =
       \<lparr>raised = None,
        declared = [stack_reference vpc_stack, stack_reference eks_stack]
          @ RdsDb (stack env @ ''-db'')
              (RdsDbArgs_init (base_tags_of env) (pv cidrs) (PStr major)
                 (PStackOut vpc_stack ''private_subnet_ids'') (PStackOut vpc_stack ''vpc_id'')
                 (PStr ''cloudlan.net'') None None
                 (Some (pv (config_get env ''db_storage_size'')))),
        exports =
          [(''db_admin_username'', POut ((stack env @ ''-db'') @ ''-db-cluster'') ''master_username''),
           (''db_admin_password'', db_password_result (stack env @ ''-db''))]\<rparr>"
proof (cases "config_get_object env ''cidr_blocks''")
  case (Inl e)
  with assms show ?thesis by (simp add: db_main_def)
next
  case c: (Inr cidrs)
  show ?thesis
  proof (cases "config_require env ''db_major_version''")
    case (Inl e)
    with assms c show ?thesis by (simp add: db_main_def)
  next
    case (Inr major)
    with c that [of cidrs major] show ?thesis by (simp add: db_main_def Let_def)
  qed
qed

lemma db_main_args_clean:
  "\<not> args_mention (POut r a)
       (RdsDbArgs_init (base_tags_of env) (pv cidrs) (PStr major)
          (PStackOut vpc_stack ''private_subnet_ids'') (PStackOut vpc_stack ''vpc_id'')
          (PStr ''cloudlan.net'') None None (Some (pv s)))"
  by (simp add: args_mention_def RdsDbArgs_init_def base_tags_of_def pv_mentions_no_output)

text \<open>
  C8. The component declares one random password, whose \<open>result\<close> is listed among its
  additional secret outputs, so the output is marked secret. When the arguments handed
  to the component are not built from that output, the only resource fields built from
  it are the cluster's master password and the secret string of the secret version.
  In the database stack the only export built from it is \<open>db_admin_password\<close>, which is
  the marked output itself, and the same two fields are the only ones built from it.
\<close>

theorem password_marked_and_routed:
  "(\<not> args_mention (db_password_result name) args \<longrightarrow>
      of_type ''random.RandomPassword'' (RdsDb name args) = [db_password name]
      \<and> map_of (ropts (db_password name)) ''additional_secret_outputs''
          = Some (PList [PStr ''result''])
      \<and> marked_secret (RdsDb name args) (name @ ''-db-mysql-password'') ''result''
      \<and> fields_with (db_password_result name) (RdsDb name args) = secret_typed_fields)
   \<and> (raised (db_main env) = None \<longrightarrow>
      filter (\<lambda>kv. mentions (db_password_result (stack env @ ''-db'')) (snd kv))
          (exports (db_main env))
        = [(''db_admin_password'', db_password_result (stack env @ ''-db''))]
      \<and> marked_secret (declared (db_main env)) ((stack env @ ''-db'') @ ''-db-mysql-password'') ''result''
      \<and> fields_with (db_password_result (stack env @ ''-db'')) (declared (db_main env))
          = secret_typed_fields)"
proof -
  have component: "of_type ''random.RandomPassword'' (RdsDb name args) = [db_password name]
      \<and> map_of (ropts (db_password name)) ''additional_secret_outputs''
          = Some (PList [PStr ''result''])
      \<and> marked_secret (RdsDb name args) (name @ ''-db-mysql-password'') ''result''
      \<and> fields_with (db_password_result name) (RdsDb name args) = secret_typed_fields"
    if "\<not> args_mention (db_password_result name) args"
    using that
    by (simp add: RdsDb_password_resource RdsDb_password_marked RdsDb_fields_with_password
          secret_typed_fields_def)
       (simp add: db_password_def)
  have stack_part: "filter (\<lambda>kv. mentions (db_password_result (stack env @ ''-db'')) (snd kv))
          (exports (db_main env))
        = [(''db_admin_password'', db_password_result (stack env @ ''-db''))]
      \<and> marked_secret (declared (db_main env)) ((stack env @ ''-db'') @ ''-db-mysql-password'') ''result''
      \<and> fields_with (db_password_result (stack env @ ''-db'')) (declared (db_main env))
          = secret_typed_fields"
    if r: "raised (db_main env) = None"
  proof -
    from r obtain cidrs major where m: "db_main env =
       \<lparr>raised = None,
        declared = [stack_reference vpc_stack, stack_reference eks_stack]
          @ RdsDb (stack env @ ''-db'')
              (RdsDbArgs_init (base_tags_of env) (pv cidrs) (PStr major)
                 (PStackOut vpc_stack ''private_subnet_ids'') (PStackOut vpc_stack ''vpc_id'')
                 (PStr ''cloudlan.net'') None None
                 (Some (pv (config_get env ''db_storage_size'')))),
        exports =
          [(''db_admin_username'', POut ((stack env @ ''-db'') @ ''-db-cluster'') ''master_username''),
           (''db_admin_password'', db_password_result (stack env @ ''-db''))]\<rparr>"
      by (rule db_main_run)
    have c: "\<not> args_mention (db_password_result (stack env @ ''-db''))
               (RdsDbArgs_init (base_tags_of env) (pv cidrs) (PStr major)
                 (PStackOut vpc_stack ''private_subnet_ids'') (PStackOut vpc_stack ''vpc_id'')
                 (PStr ''cloudlan.net'') None None
                 (Some (pv (config_get env ''db_storage_size''))))"
      unfolding db_password_result_def by (rule db_main_args_clean)
    have refs: "fields_with (db_password_result (stack env @ ''-db''))
                  [stack_reference vpc_stack, stack_reference eks_stack] = []"
      by (simp add: fields_with_def stack_reference_def db_password_result_def)
    have e: "filter (\<lambda>kv. mentions (db_password_result (stack env @ ''-db'')) (snd kv))
               (exports (db_main env))
             = [(''db_admin_password'', db_password_result (stack env @ ''-db''))]"
      by (simp add: m db_password_result_def)
    have s: "marked_secret (declared (db_main env)) ((stack env @ ''-db'') @ ''-db-mysql-password'') ''result''"
      using RdsDb_password_marked [of "stack env @ ''-db''"]
      by (simp add: m marked_secret_def)
    have f: "fields_with (db_password_result (stack env @ ''-db'')) (declared (db_main env))
               = secret_typed_fields"
      using RdsDb_fields_with_password [OF c] refs
      by (simp add: m fields_with_Cons secret_typed_fields_def)
    from e s f show ?thesis by blast
  qed
  from component stack_part show ?thesis by blast
qed

lemma demo_db_main_runs: "raised (db_main (demo_env [])) = None"
  by (simp add: db_main_def demo_env_def demo_config_def demo_json_def config_get_object_def
        config_require_def Let_def)

theorem password_marked_and_routed_witness:
  "\<not> args_mention (db_password_result ''demoapp-db'') (demo_db_args False)
   \<and> marked_secret (RdsDb ''demoapp-db'' (demo_db_args False))
         (''demoapp-db'' @ ''-db-mysql-password'') ''result''
   \<and> fields_with (db_password_result ''demoapp-db'') (RdsDb ''demoapp-db'' (demo_db_args False))
       = secret_typed_fields
   \<and> raised (db_main (demo_env [])) = None
   \<and> fields_with (db_password_result (stack (demo_env []) @ ''-db''))
         (declared (db_main (demo_env []))) = secret_typed_fields"
proof -
  have a: "\<not> args_mention (db_password_result ''demoapp-db'') (demo_db_args False)"
    by (simp add: args_mention_def demo_db_args_def RdsDbArgs_init_def db_password_result_def)
  from password_marked_and_routed [of "''demoapp-db''" "demo_db_args False" "demo_env []"]
    a demo_db_main_runs
  show ?thesis by blast
qed

section \<open>Properties of the cluster-services component\<close>

text \<open>
  C10. For every name and every argument object the component declares one ConfigMap,
  and its \<open>mapRoles\<close> entry is the YAML dump of a list of two mappings: the worker node
  role that was handed in, and the role \<open>arn:aws:iam::389169665533:role/ci-role\<close> as
  \<open>ci-user\<close> in the group \<open>system:masters\<close>. The second mapping depends on no input.
\<close>

theorem ci_role_is_always_master:
  "of_type ''kubernetes.core.v1.ConfigMap'' (ServicesResources name args)
     = [cluster_auth name args]
   \<and> map_of (props (cluster_auth name args)) ''metadata''
       = Some (PDict [(''name'', PStr ''aws-auth''), (''namespace'', PStr ''kube-system'')])
   \<and> map_roles_of (cluster_auth name args) =
       Some (PYaml (PList
         [PDict [(''rolearn'', worker_role_arn args),
                 (''username'', PStr ''system:node:{{EC2PrivateDNSName}}''),
                 (''groups'', PList [PStr ''system:bootstrappers'', PStr ''system:nodes''])],
          PDict [(''rolearn'', PStr ''arn:aws:iam::389169665533:role/ci-role''),
                 (''username'', PStr ''ci-user''),
                 (''groups'', PList [PStr ''system:masters''])]]))"
proof -
  have "of_type ''kubernetes.core.v1.ConfigMap'' (ServicesResources name args)
          = [cluster_auth name args]"
    by (simp add: ServicesResources_def cluster_auth_def metric_server_def ebs_csi_def
          traefik_ns_def traefik_def ecr_repo_def lifecycle_policy_def of_type_Cons of_type_Nil)
  moreover have "map_of (props (cluster_auth name args)) ''metadata''
       = Some (PDict [(''name'', PStr ''aws-auth''), (''namespace'', PStr ''kube-system'')])"
    by (simp add: cluster_auth_def child_def)
  moreover have "map_roles_of (cluster_auth name args) =
       Some (PYaml (PList
         [PDict [(''rolearn'', worker_role_arn args),
                 (''username'', PStr ''system:node:{{EC2PrivateDNSName}}''),
                 (''groups'', PList [PStr ''system:bootstrappers'', PStr ''system:nodes''])],
          PDict [(''rolearn'', PStr ''arn:aws:iam::389169665533:role/ci-role''),
                 (''username'', PStr ''ci-user''),
                 (''groups'', PList [PStr ''system:masters''])]]))"
    by (simp add: map_roles_of_def cluster_auth_def child_def get_node_roles_def
          node_cluster_map_roles_def ci_role_entry_def)
  ultimately show ?thesis by blast
qed

section \<open>Properties of the application stack\<close>







section \<open>Missing configuration\<close>















section \<open>Properties of the network stack\<close>



end
